theory Spec2Isabelle
  imports Main
begin

section \<open>Exceptions and HTTP responses\<close>

text \<open>
  The exceptions that \<^verbatim>\<open>task-service/app/main.py\<close> raises, catches or names. All of them
  are subclasses of Python's \<^verbatim>\<open>Exception\<close>; \<open>OtherError\<close> stands for any further subclass
  (a driver error, an attribute error, ...) with its message. An \<open>HTTPException\<close> carries
  its status code and its detail.
\<close>

datatype exn =
    HTTPException nat string
  | ValueError
  | OperationalError string
  | CannotConnectNowError string
  | ConnectionRefusedError string
  | RuntimeError string
  | OtherError string

fun is_HTTPException :: "exn \<Rightarrow> bool" where
  "is_HTTPException (HTTPException s d) = True"
| "is_HTTPException e = False"

text \<open>
  What the framework sends for the outcome of an endpoint: 200 for a returned body, the
  status of an \<open>HTTPException\<close>, and 500 for any other exception.
\<close>

fun status_code :: "exn + 'a \<Rightarrow> nat" where
  "status_code (Inr body) = 200"
| "status_code (Inl (HTTPException s d)) = s"
| "status_code (Inl e) = 500"

section \<open>The identity extractor\<close>

text \<open>
  Python's \<^verbatim>\<open>int(s)\<close> on a string, base 10. A header value is decoded as Latin-1, so
  its characters are the 256 values of \<^typ>\<open>char\<close>. Among them \<^verbatim>\<open>int\<close> skips the
  white space \<^verbatim>\<open>\t \n \v \f \r\<close>, the blank, NEL (133) and the no-break space (160) on
  both sides, takes one optional sign, and then wants decimal digits, with single
  underscores allowed between two digits. More than 4300 digits are refused (the
  default limit of the interpreter). Every failure is a \<^verbatim>\<open>ValueError\<close>.
\<close>

definition py_isspace :: "char \<Rightarrow> bool" where
  "py_isspace c = (of_char c \<in> {9, 10, 11, 12, 13, 32, 133, 160 :: nat})"

definition py_isdigit :: "char \<Rightarrow> bool" where
  "py_isdigit c = (48 \<le> (of_char c :: nat) \<and> (of_char c :: nat) \<le> 57)"

definition digit_value :: "char \<Rightarrow> int" where
  "digit_value c = int (of_char c) - 48"

fun valid_digits :: "string \<Rightarrow> bool" where
  "valid_digits [] = False"
| "valid_digits [c] = py_isdigit c"
| "valid_digits (c # d # cs) =
     (py_isdigit c \<and> (if d = CHR ''_'' then valid_digits cs else valid_digits (d # cs)))"

definition int_max_str_digits :: nat where
  "int_max_str_digits = 4300"

definition python_int :: "string \<Rightarrow> exn + int" where
  "python_int s =
     (let s1 = dropWhile py_isspace s;
          neg = (case s1 of [] \<Rightarrow> False | c # cs \<Rightarrow> c = CHR ''-'');
          s2 = (case s1 of [] \<Rightarrow> [] | c # cs \<Rightarrow> if c = CHR ''+'' \<or> c = CHR ''-'' then cs else s1);
          body = takeWhile (\<lambda>c. py_isdigit c \<or> c = CHR ''_'') s2;
          rest = dropWhile (\<lambda>c. py_isdigit c \<or> c = CHR ''_'') s2;
          digits = filter py_isdigit body
      in if \<not> valid_digits body \<or> dropWhile py_isspace rest \<noteq> []
            \<or> int_max_str_digits < length digits
         then Inl ValueError
         else Inr ((if neg then - 1 else 1) * foldl (\<lambda>n c. 10 * n + digit_value c) 0 digits))"

text \<open>
  \<^verbatim>\<open>get_user_id_from_header\<close>: the header is an optional string. \<^verbatim>\<open>if not x_user_id\<close>
  is true for \<^verbatim>\<open>None\<close> and for the empty string. Only a \<^verbatim>\<open>ValueError\<close> of the
  conversion is caught.
\<close>

definition get_user_id_from_header :: "string option \<Rightarrow> exn + int" where
  "get_user_id_from_header x_user_id =
     (case x_user_id of
        None \<Rightarrow> Inl (HTTPException 401 ''User ID not provided'')
      | Some s \<Rightarrow>
          if s = [] then Inl (HTTPException 401 ''User ID not provided'')
          else (case python_int s of
                  Inl e \<Rightarrow> if e = ValueError then Inl (HTTPException 400 ''Invalid user ID'')
                           else Inl e
                | Inr n \<Rightarrow> Inr n))"

section \<open>The data model\<close>

text \<open>
  Modelled from the spec: the modules \<^verbatim>\<open>models\<close> and \<^verbatim>\<open>schemas\<close> are not among
  the sources. A task has a generated id, the id of its owner, and the descriptive fields
  title, description and status; the description may be left out (the example request
  of the specification creates a task from a title and a status only). The timestamps,
  which the specification lists as "if present", are left out.
\<close>

record task =
  id_task :: int
  owner_id :: int
  title :: string
  description :: "string option"
  status :: string

text \<open>Modelled from the spec: \<^verbatim>\<open>schemas.TaskCreate\<close>, the payload of a creation.\<close>

record task_create =
  new_title :: string
  new_description :: "string option"
  new_status :: string

text \<open>
  Modelled from the spec: \<^verbatim>\<open>schemas.TaskUpdate\<close>, a partial payload. A field is
  \<open>None\<close> when the request does not supply it, and \<open>Some v\<close> when it supplies \<open>v\<close>.
\<close>

record task_update =
  upd_title :: "string option"
  upd_description :: "string option option"
  upd_status :: "string option"

section \<open>The persistence layer as the handlers see it\<close>

text \<open>
  \<^verbatim>\<open>main.py\<close> reaches the store only through five functions of the module
  \<^verbatim>\<open>crud\<close>, each awaited on the session \<open>db\<close>. The module is a parameter of the
  handlers: a record of five operations on a store of type \<open>'s\<close>, each of which returns
  its value or raises, and hands the store back.
\<close>

record 's crud_module =
  op_create_task :: "'s \<Rightarrow> task_create \<Rightarrow> int \<Rightarrow> (exn + task) \<times> 's"
  op_get_user_tasks :: "'s \<Rightarrow> int \<Rightarrow> int \<Rightarrow> int \<Rightarrow> (exn + task list) \<times> 's"
  op_get_task :: "'s \<Rightarrow> int \<Rightarrow> (exn + task option) \<times> 's"
  op_update_task :: "'s \<Rightarrow> int \<Rightarrow> task_update \<Rightarrow> (exn + task option) \<times> 's"
  op_delete_task :: "'s \<Rightarrow> int \<Rightarrow> (exn + unit) \<times> 's"

section \<open>The route handlers\<close>

text \<open>
  The two shapes of \<^verbatim>\<open>except\<close> at the end of a handler. \<open>except_Exception\<close> is
  \<^verbatim>\<open>except Exception: raise HTTPException(500, "Internal server error")\<close> alone
  (create and list); \<open>except_HTTPException\<close> has \<^verbatim>\<open>except HTTPException: raise\<close>
  in front of it (get-one, update, delete). The calls to the logger are not modelled.
\<close>

definition except_Exception :: "exn + 'a \<Rightarrow> exn + 'a" where
  "except_Exception r =
     (case r of
        Inl e \<Rightarrow> Inl (HTTPException 500 ''Internal server error'')
      | Inr v \<Rightarrow> Inr v)"

definition except_HTTPException :: "exn + 'a \<Rightarrow> exn + 'a" where
  "except_HTTPException r =
     (case r of
        Inl e \<Rightarrow> if is_HTTPException e then Inl e
                 else Inl (HTTPException 500 ''Internal server error'')
      | Inr v \<Rightarrow> Inr v)"

text \<open>\<^verbatim>\<open>create_task\<close> (POST /tasks), with the caller's identity already extracted.\<close>

definition create_task ::
  "'s crud_module \<Rightarrow> task_create \<Rightarrow> 's \<Rightarrow> int \<Rightarrow> (exn + task) \<times> 's" where
  "create_task crud task db user_id =
     (case op_create_task crud db task user_id of
        (r, db') \<Rightarrow> (except_Exception r, db'))"

text \<open>\<^verbatim>\<open>get_tasks\<close> (GET /tasks).\<close>

definition get_tasks ::
  "'s crud_module \<Rightarrow> int \<Rightarrow> int \<Rightarrow> 's \<Rightarrow> int \<Rightarrow> (exn + task list) \<times> 's" where
  "get_tasks crud skip limit db user_id =
     (case op_get_user_tasks crud db user_id skip limit of
        (r, db') \<Rightarrow> (except_Exception r, db'))"

text \<open>
  The first three statements of get-one, update and delete: look the task up, raise
  404 when there is none, then raise 403 when its owner is not the caller. The three
  handlers differ only in the detail of the 403.
\<close>

definition get_task_try ::
  "'s crud_module \<Rightarrow> int \<Rightarrow> 's \<Rightarrow> int \<Rightarrow> (exn + task) \<times> 's" where
  "get_task_try crud task_id db user_id =
     (case op_get_task crud db task_id of
        (Inl e, db') \<Rightarrow> (Inl e, db')
      | (Inr None, db') \<Rightarrow> (Inl (HTTPException 404 ''Task not found''), db')
      | (Inr (Some task), db') \<Rightarrow>
          if owner_id task \<noteq> user_id
          then (Inl (HTTPException 403 ''Not authorized to access this task''), db')
          else (Inr task, db'))"

text \<open>\<^verbatim>\<open>get_task\<close> (GET /tasks/{task_id}).\<close>

definition get_task ::
  "'s crud_module \<Rightarrow> int \<Rightarrow> 's \<Rightarrow> int \<Rightarrow> (exn + task) \<times> 's" where
  "get_task crud task_id db user_id =
     (case get_task_try crud task_id db user_id of
        (r, db') \<Rightarrow> (except_HTTPException r, db'))"

text \<open>\<^verbatim>\<open>update_task\<close> (PUT /tasks/{task_id}); it returns what \<^verbatim>\<open>crud.update_task\<close> returns.\<close>

definition update_task_try ::
  "'s crud_module \<Rightarrow> int \<Rightarrow> task_update \<Rightarrow> 's \<Rightarrow> int \<Rightarrow> (exn + task option) \<times> 's" where
  "update_task_try crud task_id task_update db user_id =
     (case op_get_task crud db task_id of
        (Inl e, db') \<Rightarrow> (Inl e, db')
      | (Inr None, db') \<Rightarrow> (Inl (HTTPException 404 ''Task not found''), db')
      | (Inr (Some task), db') \<Rightarrow>
          if owner_id task \<noteq> user_id
          then (Inl (HTTPException 403 ''Not authorized to update this task''), db')
          else op_update_task crud db' task_id task_update)"

definition update_task ::
  "'s crud_module \<Rightarrow> int \<Rightarrow> task_update \<Rightarrow> 's \<Rightarrow> int \<Rightarrow> (exn + task option) \<times> 's" where
  "update_task crud task_id task_update db user_id =
     (case update_task_try crud task_id task_update db user_id of
        (r, db') \<Rightarrow> (except_HTTPException r, db'))"

text \<open>\<^verbatim>\<open>delete_task\<close> (DELETE /tasks/{task_id}); the body is a one-entry dictionary.\<close>

definition delete_task_try ::
  "'s crud_module \<Rightarrow> int \<Rightarrow> 's \<Rightarrow> int \<Rightarrow> (exn + (string \<times> string) list) \<times> 's" where
  "delete_task_try crud task_id db user_id =
     (case op_get_task crud db task_id of
        (Inl e, db') \<Rightarrow> (Inl e, db')
      | (Inr None, db') \<Rightarrow> (Inl (HTTPException 404 ''Task not found''), db')
      | (Inr (Some task), db') \<Rightarrow>
          if owner_id task \<noteq> user_id
          then (Inl (HTTPException 403 ''Not authorized to delete this task''), db')
          else (case op_delete_task crud db' task_id of
                  (Inl e, db'') \<Rightarrow> (Inl e, db'')
                | (Inr u, db'') \<Rightarrow> (Inr [(''message'', ''Task deleted successfully'')], db'')))"

definition delete_task ::
  "'s crud_module \<Rightarrow> int \<Rightarrow> 's \<Rightarrow> int \<Rightarrow> (exn + (string \<times> string) list) \<times> 's" where
  "delete_task crud task_id db user_id =
     (case delete_task_try crud task_id db user_id of
        (r, db') \<Rightarrow> (except_HTTPException r, db'))"

subsection \<open>Requests: the dependency on the header, then the handler\<close>

text \<open>
  \<^verbatim>\<open>user_id: int = Depends(get_user_id_from_header)\<close>: the framework runs the extractor
  on the \<^verbatim>\<open>X-User-Id\<close> header before the handler. When the extractor raises, the handler
  does not run and the exception is the response; it is raised outside the handler's
  \<^verbatim>\<open>try\<close>.
\<close>

definition Depends_user_id ::
  "string option \<Rightarrow> ('s \<Rightarrow> int \<Rightarrow> (exn + 'a) \<times> 's) \<Rightarrow> 's \<Rightarrow> (exn + 'a) \<times> 's" where
  "Depends_user_id x_user_id handler db =
     (case get_user_id_from_header x_user_id of
        Inl e \<Rightarrow> (Inl e, db)
      | Inr user_id \<Rightarrow> handler db user_id)"

definition POST_tasks ::
  "'s crud_module \<Rightarrow> task_create \<Rightarrow> 's \<Rightarrow> string option \<Rightarrow> (exn + task) \<times> 's" where
  "POST_tasks crud task db x_user_id = Depends_user_id x_user_id (create_task crud task) db"

text \<open>The query parameters of the list default to \<^verbatim>\<open>skip = 0\<close> and \<^verbatim>\<open>limit = 100\<close>.\<close>

definition GET_tasks ::
  "'s crud_module \<Rightarrow> int option \<Rightarrow> int option \<Rightarrow> 's \<Rightarrow> string option
     \<Rightarrow> (exn + task list) \<times> 's" where
  "GET_tasks crud skip limit db x_user_id =
     Depends_user_id x_user_id
       (get_tasks crud (case skip of None \<Rightarrow> 0 | Some k \<Rightarrow> k)
                       (case limit of None \<Rightarrow> 100 | Some k \<Rightarrow> k)) db"

definition GET_task ::
  "'s crud_module \<Rightarrow> int \<Rightarrow> 's \<Rightarrow> string option \<Rightarrow> (exn + task) \<times> 's" where
  "GET_task crud task_id db x_user_id = Depends_user_id x_user_id (get_task crud task_id) db"

definition PUT_task ::
  "'s crud_module \<Rightarrow> int \<Rightarrow> task_update \<Rightarrow> 's \<Rightarrow> string option
     \<Rightarrow> (exn + task option) \<times> 's" where
  "PUT_task crud task_id task_update db x_user_id =
     Depends_user_id x_user_id (update_task crud task_id task_update) db"

definition DELETE_task ::
  "'s crud_module \<Rightarrow> int \<Rightarrow> 's \<Rightarrow> string option
     \<Rightarrow> (exn + (string \<times> string) list) \<times> 's" where
  "DELETE_task crud task_id db x_user_id =
     Depends_user_id x_user_id (delete_task crud task_id) db"

section \<open>The startup sequencer\<close>

text \<open>
  \<^verbatim>\<open>startup_event\<close> runs \<^verbatim>\<open>for attempt in range(1, retries + 1)\<close> with a \<^verbatim>\<open>try\<close>
  inside and an \<^verbatim>\<open>else\<close> after the loop. The database is outside the program: the
  parameter \<open>run\<close> gives, for each attempt number, the outcome of opening the connection
  and creating the tables (\<open>None\<close> when nothing is raised). What the function does besides
  returning is recorded as a list of effects, in the order of their execution: the log
  line of each attempt, the log line of the success, the warning or the error of a
  failed attempt, each sleep with its number of seconds, and the critical line.
\<close>

datatype effect =
    Attempt nat
  | Created
  | Warning exn
  | Error exn
  | Sleep nat
  | Critical

text \<open>The classes of the first \<^verbatim>\<open>except\<close> clause.\<close>

fun db_not_ready :: "exn \<Rightarrow> bool" where
  "db_not_ready (OperationalError m) = True"
| "db_not_ready (CannotConnectNowError m) = True"
| "db_not_ready (ConnectionRefusedError m) = True"
| "db_not_ready e = False"

fun startup_loop ::
  "(nat \<Rightarrow> exn option) \<Rightarrow> nat \<Rightarrow> nat list \<Rightarrow> (exn + unit) \<times> effect list" where
  "startup_loop run delay [] =
     (Inl (RuntimeError ''Database connection failed''), [Critical])"
| "startup_loop run delay (attempt # rest) =
     (case run attempt of
        None \<Rightarrow> (Inr (), [Attempt attempt, Created])
      | Some e \<Rightarrow>
          if db_not_ready e
          then (case startup_loop run delay rest of
                  (r, effects) \<Rightarrow> (r, [Attempt attempt, Warning e, Sleep delay] @ effects))
          else (case startup_loop run delay rest of
                  (r, effects) \<Rightarrow> (r, [Attempt attempt, Error e, Sleep delay] @ effects)))"

definition startup_event :: "(nat \<Rightarrow> exn option) \<Rightarrow> (exn + unit) \<times> effect list" where
  "startup_event run =
     (let retries = 10; delay = 3
      in startup_loop run delay [1 ..< retries + 1])"

text \<open>The attempts and the sleeps among the effects, each kind alone.\<close>

fun attempts :: "effect list \<Rightarrow> nat list" where
  "attempts [] = []"
| "attempts (Attempt k # es) = k # attempts es"
| "attempts (e # es) = attempts es"

fun sleeps :: "effect list \<Rightarrow> nat list" where
  "sleeps [] = []"
| "sleeps (Sleep d # es) = d # sleeps es"
| "sleeps (e # es) = sleeps es"

text \<open>The attempts and the sleeps together, in their order: the schedule of the loop.\<close>

fun timing :: "effect list \<Rightarrow> effect list" where
  "timing [] = []"
| "timing (Attempt k # es) = Attempt k # timing es"
| "timing (Sleep d # es) = Sleep d # timing es"
| "timing (e # es) = timing es"

section \<open>The health check\<close>

text \<open>
  \<^verbatim>\<open>health_check\<close>: \<open>probe\<close> is the outcome of the \<^verbatim>\<open>async with\<close> block that connects
  and executes \<^verbatim>\<open>SELECT 1\<close> (\<open>None\<close> when nothing is raised). The body is a dictionary,
  written as the list of its items.
\<close>

definition health_check :: "exn option \<Rightarrow> exn + (string \<times> string) list" where
  "health_check probe =
     (let db_status = (case probe of None \<Rightarrow> ''up'' | Some e \<Rightarrow> ''down'')
      in Inr [(''status'', ''healthy''),
              (''database'', db_status),
              (''service'', ''task-service'')])"

section \<open>The persistence layer of the specification\<close>

text \<open>
  Modelled from the spec: the module \<^verbatim>\<open>crud\<close> is not among the sources. The store is
  the table of tasks, a list in the order the persistence layer keeps.
\<close>

type_synonym db = "task list"

text \<open>Modelled from the spec: \<^verbatim>\<open>crud.get_task\<close>, the task with the given id, if any.\<close>

definition crud_get_task :: "db \<Rightarrow> int \<Rightarrow> task option" where
  "crud_get_task db task_id = find (\<lambda>t. id_task t = task_id) db"

text \<open>
  Modelled from the spec: \<^verbatim>\<open>crud.get_user_tasks\<close>, "tasks owned by caller only, in
  persistence-defined order, sliced by skip/limit". The specification does not say what
  a negative \<open>skip\<close> or \<open>limit\<close> does; here it counts as 0.
\<close>

definition crud_get_user_tasks :: "db \<Rightarrow> int \<Rightarrow> int \<Rightarrow> int \<Rightarrow> task list" where
  "crud_get_user_tasks db user_id skip limit =
     take (nat limit) (drop (nat skip) (filter (\<lambda>t. owner_id t = user_id) db))"

text \<open>
  Modelled from the spec: \<^verbatim>\<open>crud.create_task\<close>. The id is "assigned by the persistence
  layer on creation" and unique: one more than the largest id in the table (and at
  least 1). The owner is the caller.
\<close>

fun max_id :: "db \<Rightarrow> int" where
  "max_id [] = 0"
| "max_id (t # ts) = max (id_task t) (max_id ts)"

definition crud_create_task :: "db \<Rightarrow> task_create \<Rightarrow> int \<Rightarrow> task \<times> db" where
  "crud_create_task db task user_id =
     (let db_task = \<lparr>id_task = max_id db + 1, owner_id = user_id, title = new_title task,
                     description = new_description task, status = new_status task\<rparr>
      in (db_task, db @ [db_task]))"

text \<open>
  Modelled from the spec: \<^verbatim>\<open>crud.update_task\<close>, "applies partial update; returns
  updated Task". Each supplied field replaces the stored one; the id and the owner are
  not fields of the payload.
\<close>

definition apply_update :: "task_update \<Rightarrow> task \<Rightarrow> task" where
  "apply_update u t =
     t\<lparr>title := (case upd_title u of None \<Rightarrow> title t | Some v \<Rightarrow> v),
       description := (case upd_description u of None \<Rightarrow> description t | Some v \<Rightarrow> v),
       status := (case upd_status u of None \<Rightarrow> status t | Some v \<Rightarrow> v)\<rparr>"

definition crud_update_task :: "db \<Rightarrow> int \<Rightarrow> task_update \<Rightarrow> task option \<times> db" where
  "crud_update_task db task_id task_update =
     (let db' = map (\<lambda>t. if id_task t = task_id then apply_update task_update t else t) db
      in (crud_get_task db' task_id, db'))"

text \<open>Modelled from the spec: \<^verbatim>\<open>crud.delete_task\<close>, which removes the task.\<close>

definition crud_delete_task :: "db \<Rightarrow> int \<Rightarrow> db" where
  "crud_delete_task db task_id = filter (\<lambda>t. id_task t \<noteq> task_id) db"

text \<open>The five operations as the module the handlers are given; none of them raises.\<close>

definition crud_spec :: "db crud_module" where
  "crud_spec =
     \<lparr>op_create_task = (\<lambda>db task user_id.
        case crud_create_task db task user_id of (t, db') \<Rightarrow> (Inr t, db')),
      op_get_user_tasks = (\<lambda>db user_id skip limit.
        (Inr (crud_get_user_tasks db user_id skip limit), db)),
      op_get_task = (\<lambda>db task_id. (Inr (crud_get_task db task_id), db)),
      op_update_task = (\<lambda>db task_id task_update.
        case crud_update_task db task_id task_update of (t, db') \<Rightarrow> (Inr t, db')),
      op_delete_task = (\<lambda>db task_id. (Inr (), crud_delete_task db task_id))\<rparr>"



section \<open>Example data\<close>

text \<open>
  The task, the payloads and the stores of the examples: the task that user 1 creates
  from \<^verbatim>\<open>{title: "A", status: "open"}\<close> in an empty store, and two partial updates.
\<close>

definition payload_A :: task_create where
  "payload_A = \<lparr>new_title = ''A'', new_description = None, new_status = ''open''\<rparr>"

definition task_A :: task where
  "task_A = \<lparr>id_task = 1, owner_id = 1, title = ''A'', description = None, status = ''open''\<rparr>"

definition task_B :: task where
  "task_B = \<lparr>id_task = 2, owner_id = 2, title = ''B'', description = Some ''second'',
              status = ''open''\<rparr>"

definition update_none :: task_update where
  "update_none = \<lparr>upd_title = None, upd_description = None, upd_status = None\<rparr>"

definition update_status_done :: task_update where
  "update_status_done = \<lparr>upd_title = None, upd_description = None, upd_status = Some ''done''\<rparr>"

text \<open>
  Two databases at startup: one that refuses the connection at the first attempt, fails
  in an unexpected way at the second and is there at the third, and one that fails at
  every attempt.
\<close>

definition db_up_at_third :: "nat \<Rightarrow> exn option" where
  "db_up_at_third k =
     (if k = 1 then Some (ConnectionRefusedError ''refused'')
      else if k = 2 then Some (OtherError ''unexpected'')
      else None)"

definition db_never_up :: "nat \<Rightarrow> exn option" where
  "db_never_up k = Some (OtherError ''unexpected'')"

section \<open>Facts about the definitions\<close>

lemmas routes_def = POST_tasks_def GET_tasks_def GET_task_def PUT_task_def DELETE_task_def

lemmas python_int_eval = python_int_def py_isspace_def py_isdigit_def digit_value_def
  int_max_str_digits_def

lemmas handlers_def = get_task_def get_task_try_def update_task_def update_task_try_def
  delete_task_def delete_task_try_def except_HTTPException_def

lemmas example_defs = task_A_def task_B_def payload_A_def update_none_def update_status_done_def

lemma crud_spec_simps:
  "op_get_task crud_spec db task_id = (Inr (crud_get_task db task_id), db)"
  "op_get_user_tasks crud_spec db user_id skip limit =
     (Inr (crud_get_user_tasks db user_id skip limit), db)"
  "op_delete_task crud_spec db task_id = (Inr (), crud_delete_task db task_id)"
  "op_create_task crud_spec db task user_id =
     (Inr (fst (crud_create_task db task user_id)), snd (crud_create_task db task user_id))"
  "op_update_task crud_spec db task_id task_update =
     (Inr (fst (crud_update_task db task_id task_update)),
      snd (crud_update_task db task_id task_update))"
  by (simp_all add: crud_spec_def split: prod.splits)

text \<open>The store of the specification: lookups, the list of a user, fresh ids, updates.\<close>

lemma crud_get_task_SomeD:
  "crud_get_task db task_id = Some t \<Longrightarrow> t \<in> set db \<and> id_task t = task_id"
  unfolding crud_get_task_def by (induction db) (auto split: if_splits)

lemma crud_get_task_distinct:
  "distinct (map id_task db) \<Longrightarrow> t \<in> set db \<Longrightarrow> crud_get_task db (id_task t) = Some t"
  unfolding crud_get_task_def by (induction db) auto

lemma crud_get_user_tasks_subset:
  "t \<in> set (crud_get_user_tasks db user_id skip limit) \<Longrightarrow> t \<in> set db \<and> owner_id t = user_id"
proof -
  assume "t \<in> set (crud_get_user_tasks db user_id skip limit)"
  then have "t \<in> set (drop (nat skip) (filter (\<lambda>t. owner_id t = user_id) db))"
    unfolding crud_get_user_tasks_def by (rule in_set_takeD)
  then have "t \<in> set (filter (\<lambda>t. owner_id t = user_id) db)"
    by (rule in_set_dropD)
  then show ?thesis by simp
qed

lemma max_id_ge: "t \<in> set db \<Longrightarrow> id_task t \<le> max_id db"
  by (induction db) auto

lemma crud_get_task_fresh: "crud_get_task db (max_id db + 1) = None"
proof -
  have "\<forall>t \<in> set db. id_task t \<noteq> max_id db + 1"
    using max_id_ge by fastforce
  then show ?thesis
    unfolding crud_get_task_def by (simp add: find_None_iff)
qed

lemma crud_get_task_append:
  "crud_get_task db (id_task x) = None \<Longrightarrow> crud_get_task (db @ [x]) (id_task x) = Some x"
  unfolding crud_get_task_def by (induction db) (auto split: if_splits)

lemma id_task_apply_update: "id_task (apply_update u t) = id_task t"
  by (simp add: apply_update_def)

lemma crud_get_task_updated:
  "crud_get_task db task_id = Some t \<Longrightarrow>
   crud_get_task (map (\<lambda>t. if id_task t = task_id then apply_update u t else t) db) task_id
     = Some (apply_update u t)"
  unfolding crud_get_task_def by (induction db) (auto simp: id_task_apply_update)

lemma crud_get_task_other:
  "i \<noteq> task_id \<Longrightarrow>
   crud_get_task (map (\<lambda>t. if id_task t = task_id then apply_update u t else t) db) i
     = crud_get_task db i"
  unfolding crud_get_task_def by (induction db) (auto simp: id_task_apply_update)

text \<open>
  Ids are unique in a store that creation, update and deletion have built from the
  empty one: each of the three keeps them distinct. In such a store the lookup of a
  stored task's id finds that task (\<open>crud_get_task_distinct\<close>).
\<close>

lemma crud_get_task_None_iff:
  "crud_get_task db task_id = None \<longleftrightarrow> task_id \<notin> id_task ` set db"
  unfolding crud_get_task_def by (auto simp: find_None_iff)

lemma distinct_ids_create:
  "distinct (map id_task db) \<Longrightarrow>
   distinct (map id_task (snd (crud_create_task db task user_id)))"
proof -
  assume d: "distinct (map id_task db)"
  have "max_id db + 1 \<notin> id_task ` set db"
    using crud_get_task_fresh [of db] by (simp add: crud_get_task_None_iff)
  with d show ?thesis
    by (simp add: crud_create_task_def Let_def)
qed

lemma distinct_ids_update:
  assumes "distinct (map id_task db)"
  shows "distinct (map id_task (snd (crud_update_task db task_id task_update)))"
proof -
  have "(id_task \<circ> (\<lambda>t. if id_task t = task_id then apply_update task_update t else t))
      = id_task"
    by (rule ext) (simp add: id_task_apply_update)
  then have "map id_task (snd (crud_update_task db task_id task_update)) = map id_task db"
    by (simp add: crud_update_task_def Let_def)
  with assms show ?thesis by simp
qed

lemma distinct_ids_delete:
  "distinct (map id_task db) \<Longrightarrow> distinct (map id_task (crud_delete_task db task_id))"
  by (simp add: crud_delete_task_def distinct_map_filter)

text \<open>
  The owner comparison of get-one, update and delete, for every persistence layer: a
  task of another owner is answered with 403, and neither the update nor the delete
  of the layer is called.
\<close>

lemma other_owner_forbidden:
  assumes "op_get_task crud db task_id = (Inr (Some t), db')" and "owner_id t \<noteq> user_id"
  shows "get_task crud task_id db user_id =
           (Inl (HTTPException 403 ''Not authorized to access this task''), db')"
    and "update_task crud task_id task_update db user_id =
           (Inl (HTTPException 403 ''Not authorized to update this task''), db')"
    and "delete_task crud task_id db user_id =
           (Inl (HTTPException 403 ''Not authorized to delete this task''), db')"
  using assms by (simp_all add: handlers_def)

text \<open>The loop of the startup sequencer, over any list of attempt numbers.\<close>

lemma startup_loop_all_fail:
  "\<forall>j \<in> set ks. run j \<noteq> None \<Longrightarrow>
   fst (startup_loop run delay ks) = Inl (RuntimeError ''Database connection failed'')
   \<and> timing (snd (startup_loop run delay ks)) = concat (map (\<lambda>j. [Attempt j, Sleep delay]) ks)"
  by (induction ks) (auto split: prod.splits)

lemma startup_loop_first_success:
  "\<forall>j \<in> set ks. run j \<noteq> None \<Longrightarrow> run k = None \<Longrightarrow>
   fst (startup_loop run delay (ks @ k # rest)) = Inr ()
   \<and> timing (snd (startup_loop run delay (ks @ k # rest)))
       = concat (map (\<lambda>j. [Attempt j, Sleep delay]) ks) @ [Attempt k]"
  by (induction ks) (auto split: prod.splits)

lemma attempts_bound: "length (attempts (snd (startup_loop run delay ks))) \<le> length ks"
  by (induction ks) (auto split: prod.splits option.splits)

lemma sleeps_delay: "set (sleeps (snd (startup_loop run delay ks))) \<subseteq> {delay}"
  by (induction ks) (auto split: prod.splits option.splits)

lemma range_split: "1 \<le> k \<Longrightarrow> k \<le> 10 \<Longrightarrow> [1 ..< 10 + 1] = [1 ..< k] @ k # [Suc k ..< 11]"
proof -
  assume a: "1 \<le> k" "k \<le> (10::nat)"
  then have "[1 ..< 10 + 1] = [1 ..< k] @ [k ..< 11]"
    using upt_add_eq_append [of 1 k "11 - k"] by simp
  moreover have "[k ..< 11] = k # [Suc k ..< 11]"
    using a by (simp add: upt_conv_Cons)
  ultimately show ?thesis by simp
qed

lemma startup_event_loop: "startup_event run = startup_loop run 3 [1 ..< 10 + 1]"
  by (simp add: startup_event_def del: upt_Suc)

text \<open>The conversion and the dependency on the header.\<close>

lemma python_int_raises_ValueError: "python_int s = Inl e \<Longrightarrow> e = ValueError"
  by (auto simp: python_int_def Let_def split: if_splits)

lemma python_int_empty: "python_int [] = Inl ValueError"
  by (simp add: python_int_def)

lemma Depends_user_id_Inl:
  "get_user_id_from_header x = Inl e \<Longrightarrow> Depends_user_id x handler db = (Inl e, db)"
  by (simp add: Depends_user_id_def)

lemma Depends_user_id_Inr:
  "get_user_id_from_header x = Inr n \<Longrightarrow> Depends_user_id x handler db = handler db n"
  by (simp add: Depends_user_id_def)


section \<open>The identity extractor: properties\<close>

text \<open>
  Claim C9. A request to any of the five \<^verbatim>\<open>/tasks\<close> routes whose \<^verbatim>\<open>X-User-Id\<close> header is
  present but empty is answered with 401 "User ID not provided", exactly as a request
  without the header, and the store is not touched. The empty string is not an integer
  for \<^verbatim>\<open>int\<close>; the 400 of a malformed value is not reached because the presence test
  is the truth value of the string.
\<close>

theorem empty_header_is_unauthorized:
  "get_user_id_from_header (Some []) = Inl (HTTPException 401 ''User ID not provided'')
   \<and> get_user_id_from_header (Some []) = get_user_id_from_header None
   \<and> python_int [] = Inl ValueError
   \<and> POST_tasks crud task db (Some []) = (Inl (HTTPException 401 ''User ID not provided''), db)
   \<and> GET_tasks crud skip limit db (Some []) = (Inl (HTTPException 401 ''User ID not provided''), db)
   \<and> GET_task crud task_id db (Some []) = (Inl (HTTPException 401 ''User ID not provided''), db)
   \<and> PUT_task crud task_id task_update db (Some []) = (Inl (HTTPException 401 ''User ID not provided''), db)
   \<and> DELETE_task crud task_id db (Some []) = (Inl (HTTPException 401 ''User ID not provided''), db)"
proof -
  have h: "get_user_id_from_header (Some []) = Inl (HTTPException 401 ''User ID not provided'')"
    by (simp add: get_user_id_from_header_def)
  have n: "get_user_id_from_header None = Inl (HTTPException 401 ''User ID not provided'')"
    by (simp add: get_user_id_from_header_def)
  show ?thesis
    by (simp add: h n python_int_empty routes_def Depends_user_id_Inl [OF h])
qed

theorem empty_header_is_unauthorized_witness:
  "GET_task crud_spec 1 [task_A] (Some '''') =
     (Inl (HTTPException 401 ''User ID not provided''), [task_A])
   \<and> DELETE_task crud_spec 1 [task_A] (Some '''') =
     (Inl (HTTPException 401 ''User ID not provided''), [task_A])
   \<and> GET_task crud_spec 1 [task_A] (Some '''') = GET_task crud_spec 1 [task_A] None"
proof -
  have n: "GET_task crud_spec 1 [task_A] None =
      (Inl (HTTPException 401 ''User ID not provided''), [task_A])"
    by (simp add: GET_task_def Depends_user_id_def get_user_id_from_header_def)
  from n empty_header_is_unauthorized [where crud = crud_spec and task = payload_A
      and db = "[task_A]" and skip = None and limit = None and task_id = 1
      and task_update = update_none]
  show ?thesis by simp
qed

text \<open>
  Claim C3, as stated, fails for the empty header value: the header is present, its
  value does not parse as an integer, and the answer is 401, not 400.
\<close>

theorem identity_extraction_counterexample:
  "python_int '''' = Inl ValueError
   \<and> get_user_id_from_header (Some '''') = Inl (HTTPException 401 ''User ID not provided'')
   \<and> status_code (fst (GET_task crud_spec 1 [] (Some ''''))) \<noteq> 400"
  by (simp add: python_int_empty get_user_id_from_header_def GET_task_def Depends_user_id_def)

text \<open>
  Claim C3, amended. On every \<^verbatim>\<open>/tasks\<close> route: an absent or empty header yields 401; a
  non-empty value that \<^verbatim>\<open>int\<close> refuses yields 400; any other value yields the parsed
  integer. When the extractor fails, the request is answered with its error and the
  store is unchanged; when it succeeds, the request is the handler run with the parsed
  integer as the caller.
\<close>

theorem identity_extraction:
  "(x = None \<or> x = Some [] \<longrightarrow>
      get_user_id_from_header x = Inl (HTTPException 401 ''User ID not provided''))
   \<and> (x = Some s \<and> s \<noteq> [] \<and> python_int s = Inl e \<longrightarrow>
      get_user_id_from_header x = Inl (HTTPException 400 ''Invalid user ID''))
   \<and> (x = Some s \<and> s \<noteq> [] \<and> python_int s = Inr n \<longrightarrow>
      get_user_id_from_header x = Inr n)
   \<and> (get_user_id_from_header x = Inl err \<longrightarrow>
        POST_tasks crud task db x = (Inl err, db)
      \<and> GET_tasks crud skip limit db x = (Inl err, db)
      \<and> GET_task crud task_id db x = (Inl err, db)
      \<and> PUT_task crud task_id task_update db x = (Inl err, db)
      \<and> DELETE_task crud task_id db x = (Inl err, db))
   \<and> (get_user_id_from_header x = Inr n \<longrightarrow>
        POST_tasks crud task db x = create_task crud task db n
      \<and> GET_tasks crud (Some k) (Some l) db x = get_tasks crud k l db n
      \<and> GET_tasks crud None None db x = get_tasks crud 0 100 db n
      \<and> GET_task crud task_id db x = get_task crud task_id db n
      \<and> PUT_task crud task_id task_update db x = update_task crud task_id task_update db n
      \<and> DELETE_task crud task_id db x = delete_task crud task_id db n)"
proof -
  have a: "x = None \<or> x = Some [] \<longrightarrow>
      get_user_id_from_header x = Inl (HTTPException 401 ''User ID not provided'')"
    by (auto simp: get_user_id_from_header_def)
  have b: "x = Some s \<and> s \<noteq> [] \<and> python_int s = Inl e \<longrightarrow>
      get_user_id_from_header x = Inl (HTTPException 400 ''Invalid user ID'')"
    using python_int_raises_ValueError [of s e]
    by (auto simp: get_user_id_from_header_def)
  have c: "x = Some s \<and> s \<noteq> [] \<and> python_int s = Inr n \<longrightarrow>
      get_user_id_from_header x = Inr n"
    by (auto simp: get_user_id_from_header_def)
  have d: "get_user_id_from_header x = Inl err \<longrightarrow>
        POST_tasks crud task db x = (Inl err, db)
      \<and> GET_tasks crud skip limit db x = (Inl err, db)
      \<and> GET_task crud task_id db x = (Inl err, db)
      \<and> PUT_task crud task_id task_update db x = (Inl err, db)
      \<and> DELETE_task crud task_id db x = (Inl err, db)"
    by (simp add: routes_def Depends_user_id_Inl)
  have e: "get_user_id_from_header x = Inr n \<longrightarrow>
        POST_tasks crud task db x = create_task crud task db n
      \<and> GET_tasks crud (Some k) (Some l) db x = get_tasks crud k l db n
      \<and> GET_tasks crud None None db x = get_tasks crud 0 100 db n
      \<and> GET_task crud task_id db x = get_task crud task_id db n
      \<and> PUT_task crud task_id task_update db x = update_task crud task_id task_update db n
      \<and> DELETE_task crud task_id db x = delete_task crud task_id db n"
    by (simp add: routes_def Depends_user_id_Inr)
  from a b c d e show ?thesis by blast
qed

theorem identity_extraction_witness:
  "get_user_id_from_header None = Inl (HTTPException 401 ''User ID not provided'')
   \<and> GET_task crud_spec 1 [] None = (Inl (HTTPException 401 ''User ID not provided''), [])
   \<and> python_int ''abc'' = Inl ValueError
   \<and> get_user_id_from_header (Some ''abc'') = Inl (HTTPException 400 ''Invalid user ID'')
   \<and> DELETE_task crud_spec 1 [] (Some ''abc'') = (Inl (HTTPException 400 ''Invalid user ID''), [])
   \<and> python_int ''42'' = Inr 42
   \<and> get_user_id_from_header (Some ''42'') = Inr 42
   \<and> GET_task crud_spec 1 [] (Some ''42'') = get_task crud_spec 1 [] 42"
proof -
  have p1: "python_int ''abc'' = Inl ValueError" by (simp add: python_int_eval)
  have p2: "python_int ''42'' = Inr 42" by (simp add: python_int_eval)
  note t1 = identity_extraction [where x = None and s = "[]" and e = ValueError and n = 0
      and err = "HTTPException 401 ''User ID not provided''" and crud = crud_spec
      and task = payload_A
      and db = "[]" and skip = None and limit = None and task_id = 1
      and task_update = update_none
      and k = 0 and l = 100]
  note t2 = identity_extraction [where x = "Some ''abc''" and s = "''abc''" and e = ValueError
      and n = 0 and err = "HTTPException 400 ''Invalid user ID''" and crud = crud_spec
      and task = payload_A
      and db = "[]" and skip = None and limit = None and task_id = 1
      and task_update = update_none
      and k = 0 and l = 100]
  note t3 = identity_extraction [where x = "Some ''42''" and s = "''42''" and e = ValueError
      and n = 42 and err = "HTTPException 400 ''Invalid user ID''" and crud = crud_spec
      and task = payload_A
      and db = "[]" and skip = None and limit = None and task_id = 1
      and task_update = update_none
      and k = 0 and l = 100]
  from t1 t2 t3 p1 p2 show ?thesis by simp
qed

section \<open>Lookup and ownership\<close>

text \<open>
  Claim C2. Whenever the lookup of \<^verbatim>\<open>crud.get_task\<close> finds no task for the id, the
  get-one, update and delete handlers answer 404 "Task not found", whoever the caller
  is: the test for the missing task comes before the comparison of the owner, so the
  answer is never 403. This holds for every persistence layer; the store is handed back
  as the lookup left it.
\<close>

theorem not_found_precedes_ownership:
  assumes "op_get_task crud db task_id = (Inr None, db')"
  shows "get_task crud task_id db user_id = (Inl (HTTPException 404 ''Task not found''), db')
       \<and> update_task crud task_id task_update db user_id =
           (Inl (HTTPException 404 ''Task not found''), db')
       \<and> delete_task crud task_id db user_id = (Inl (HTTPException 404 ''Task not found''), db')"
  using assms by (simp add: handlers_def)

theorem not_found_precedes_ownership_witness:
  "op_get_task crud_spec [task_A] 999 = (Inr None, [task_A])
   \<and> get_task crud_spec 999 [task_A] 1 = (Inl (HTTPException 404 ''Task not found''), [task_A])
   \<and> get_task crud_spec 999 [task_A] 2 = (Inl (HTTPException 404 ''Task not found''), [task_A])
   \<and> update_task crud_spec 999 update_status_done [task_A] 2 =
       (Inl (HTTPException 404 ''Task not found''), [task_A])
   \<and> delete_task crud_spec 999 [task_A] 2 = (Inl (HTTPException 404 ''Task not found''), [task_A])"
proof -
  have h: "op_get_task crud_spec [task_A] 999 = (Inr None, [task_A])"
    by (simp add: crud_spec_simps crud_get_task_def task_A_def)
  from h not_found_precedes_ownership [OF h, of 1 update_status_done]
    not_found_precedes_ownership [OF h, of 2 update_status_done]
  show ?thesis by simp
qed

text \<open>
  Claim C1. In the store of the specification, let \<open>t\<close> be the task that the lookup
  finds for an id, and let the caller be anyone but its owner. Then get-one, update and
  delete on that id answer 403, return no task and leave the store as it was, and the
  list of the caller does not contain \<open>t\<close>, nor any task of another owner, whatever
  \<open>skip\<close> and \<open>limit\<close> are.
\<close>

theorem ownership_exclusivity:
  assumes "crud_get_task db task_id = Some t" and "user_id \<noteq> owner_id t"
  shows "get_task crud_spec task_id db user_id =
           (Inl (HTTPException 403 ''Not authorized to access this task''), db)
       \<and> update_task crud_spec task_id task_update db user_id =
           (Inl (HTTPException 403 ''Not authorized to update this task''), db)
       \<and> delete_task crud_spec task_id db user_id =
           (Inl (HTTPException 403 ''Not authorized to delete this task''), db)
       \<and> (\<exists>tasks. get_tasks crud_spec skip limit db user_id = (Inr tasks, db)
             \<and> t \<notin> set tasks \<and> (\<forall>t' \<in> set tasks. owner_id t' = user_id))"
proof -
  have lookup: "op_get_task crud_spec db task_id = (Inr (Some t), db)"
    using assms(1) by (simp add: crud_spec_simps)
  have other: "owner_id t \<noteq> user_id"
    using assms(2) by simp
  let ?tasks = "crud_get_user_tasks db user_id skip limit"
  have "get_tasks crud_spec skip limit db user_id = (Inr ?tasks, db)"
    by (simp add: get_tasks_def crud_spec_simps except_Exception_def)
  moreover have "t \<notin> set ?tasks"
    using other crud_get_user_tasks_subset by blast
  moreover have "\<forall>t' \<in> set ?tasks. owner_id t' = user_id"
    using crud_get_user_tasks_subset by blast
  ultimately have "\<exists>tasks. get_tasks crud_spec skip limit db user_id = (Inr tasks, db)
      \<and> t \<notin> set tasks \<and> (\<forall>t' \<in> set tasks. owner_id t' = user_id)"
    by blast
  with other_owner_forbidden [OF lookup other] show ?thesis
    by simp
qed

theorem ownership_exclusivity_witness:
  "crud_get_task [task_A, task_B] 1 = Some task_A
   \<and> 2 \<noteq> owner_id task_A
   \<and> get_task crud_spec 1 [task_A, task_B] 2 =
       (Inl (HTTPException 403 ''Not authorized to access this task''), [task_A, task_B])
   \<and> update_task crud_spec 1 update_status_done [task_A, task_B] 2 =
       (Inl (HTTPException 403 ''Not authorized to update this task''), [task_A, task_B])
   \<and> delete_task crud_spec 1 [task_A, task_B] 2 =
       (Inl (HTTPException 403 ''Not authorized to delete this task''), [task_A, task_B])
   \<and> get_tasks crud_spec 0 100 [task_A, task_B] 2 = (Inr [task_B], [task_A, task_B])
   \<and> task_A \<notin> set [task_B]"
proof -
  have h1: "crud_get_task [task_A, task_B] 1 = Some task_A"
    by (simp add: crud_get_task_def task_A_def)
  have h2: "2 \<noteq> owner_id task_A"
    by (simp add: task_A_def)
  have l: "get_tasks crud_spec 0 100 [task_A, task_B] 2 = (Inr [task_B], [task_A, task_B])"
    by (simp add: get_tasks_def crud_spec_simps crud_get_user_tasks_def except_Exception_def
        task_A_def task_B_def)
  have n: "task_A \<notin> set [task_B]"
    by (simp add: task_A_def task_B_def)
  from h1 h2 l n ownership_exclusivity [OF h1 h2, of update_status_done 0 100]
  show ?thesis by simp
qed

text \<open>
  Claim C10. For a caller who does not own the task, the status of get-one, update and
  delete tells whether the id exists: 403 in a store where the lookup finds a task of
  another owner, 404 in a store where it finds none. The two answers differ.
\<close>

theorem existence_disclosure:
  assumes "op_get_task crud db1 task_id = (Inr (Some t), db1')"
    and "owner_id t \<noteq> user_id"
    and "op_get_task crud db2 task_id = (Inr None, db2')"
  shows "status_code (fst (get_task crud task_id db1 user_id)) = 403
       \<and> status_code (fst (get_task crud task_id db2 user_id)) = 404
       \<and> status_code (fst (update_task crud task_id task_update db1 user_id)) = 403
       \<and> status_code (fst (update_task crud task_id task_update db2 user_id)) = 404
       \<and> status_code (fst (delete_task crud task_id db1 user_id)) = 403
       \<and> status_code (fst (delete_task crud task_id db2 user_id)) = 404"
  using assms by (simp add: handlers_def)

theorem existence_disclosure_witness:
  "op_get_task crud_spec [task_A] 1 = (Inr (Some task_A), [task_A])
   \<and> owner_id task_A \<noteq> 2
   \<and> op_get_task crud_spec [] 1 = (Inr None, [])
   \<and> status_code (fst (get_task crud_spec 1 [task_A] 2)) = 403
   \<and> status_code (fst (get_task crud_spec 1 [] 2)) = 404
   \<and> status_code (fst (delete_task crud_spec 1 [task_A] 2)) = 403
   \<and> status_code (fst (delete_task crud_spec 1 [] 2)) = 404"
proof -
  have h1: "op_get_task crud_spec [task_A] 1 = (Inr (Some task_A), [task_A])"
    by (simp add: crud_spec_simps crud_get_task_def task_A_def)
  have h2: "owner_id task_A \<noteq> 2" by (simp add: task_A_def)
  have h3: "op_get_task crud_spec [] 1 = (Inr None, [])"
    by (simp add: crud_spec_simps crud_get_task_def)
  from h1 h2 h3 existence_disclosure [OF h1 h2 h3, of update_none]
  show ?thesis by simp
qed

section \<open>Update and creation in the store of the specification\<close>

text \<open>
  Claim C7. For a task that the lookup finds and that the caller owns, the update
  returns a task and stores it under the same id; in it every field the payload
  supplies has the supplied value, every field the payload leaves out has its prior
  value, and the id and the owner are the prior ones. The tasks under other ids are
  as before.
\<close>

theorem partial_update_frame:
  assumes "crud_get_task db task_id = Some t" and "owner_id t = user_id"
  shows "\<exists>t' db'. update_task crud_spec task_id task_update db user_id = (Inr (Some t'), db')
       \<and> crud_get_task db' task_id = Some t'
       \<and> id_task t' = id_task t
       \<and> owner_id t' = owner_id t
       \<and> title t' = (case upd_title task_update of None \<Rightarrow> title t | Some v \<Rightarrow> v)
       \<and> description t' =
           (case upd_description task_update of None \<Rightarrow> description t | Some v \<Rightarrow> v)
       \<and> status t' = (case upd_status task_update of None \<Rightarrow> status t | Some v \<Rightarrow> v)
       \<and> (\<forall>i. i \<noteq> task_id \<longrightarrow> crud_get_task db' i = crud_get_task db i)"
proof -
  let ?db' = "map (\<lambda>t. if id_task t = task_id then apply_update task_update t else t) db"
  let ?t' = "apply_update task_update t"
  have g: "crud_get_task ?db' task_id = Some ?t'"
    using assms(1) by (rule crud_get_task_updated)
  have u: "update_task crud_spec task_id task_update db user_id = (Inr (Some ?t'), ?db')"
    using assms g by (simp add: handlers_def crud_spec_simps crud_update_task_def)
  have f: "id_task ?t' = id_task t \<and> owner_id ?t' = owner_id t
       \<and> title ?t' = (case upd_title task_update of None \<Rightarrow> title t | Some v \<Rightarrow> v)
       \<and> description ?t' =
           (case upd_description task_update of None \<Rightarrow> description t | Some v \<Rightarrow> v)
       \<and> status ?t' = (case upd_status task_update of None \<Rightarrow> status t | Some v \<Rightarrow> v)"
    by (simp add: apply_update_def)
  have o: "\<forall>i. i \<noteq> task_id \<longrightarrow> crud_get_task ?db' i = crud_get_task db i"
    by (simp add: crud_get_task_other)
  from u g f o show ?thesis by blast
qed

theorem partial_update_frame_witness:
  "crud_get_task [task_A, task_B] 1 = Some task_A
   \<and> owner_id task_A = 1
   \<and> update_task crud_spec 1 update_status_done [task_A, task_B] 1 =
       (Inr (Some (task_A\<lparr>status := ''done''\<rparr>)), [task_A\<lparr>status := ''done''\<rparr>, task_B])
   \<and> title (task_A\<lparr>status := ''done''\<rparr>) = title task_A
   \<and> crud_get_task [task_A\<lparr>status := ''done''\<rparr>, task_B] 2 = crud_get_task [task_A, task_B] 2"
proof -
  have h1: "crud_get_task [task_A, task_B] 1 = Some task_A"
    by (simp add: crud_get_task_def task_A_def)
  have h2: "owner_id task_A = 1"
    by (simp add: task_A_def)
  have u: "update_task crud_spec 1 update_status_done [task_A, task_B] 1 =
       (Inr (Some (task_A\<lparr>status := ''done''\<rparr>)), [task_A\<lparr>status := ''done''\<rparr>, task_B])"
    by (simp add: handlers_def crud_spec_simps crud_update_task_def crud_get_task_def
        apply_update_def example_defs)
  from partial_update_frame [OF h1 h2, of update_status_done]
  obtain t' db' where
    r: "update_task crud_spec 1 update_status_done [task_A, task_B] 1 = (Inr (Some t'), db')"
    and t: "title t' = (case upd_title update_status_done of None \<Rightarrow> title task_A | Some v \<Rightarrow> v)"
    and o: "\<forall>i. i \<noteq> 1 \<longrightarrow> crud_get_task db' i = crud_get_task [task_A, task_B] i"
    by blast
  from r u have e: "t' = task_A\<lparr>status := ''done''\<rparr>" "db' = [task_A\<lparr>status := ''done''\<rparr>, task_B]"
    by auto
  from t e have t2: "title (task_A\<lparr>status := ''done''\<rparr>) = title task_A"
    by (simp add: update_status_done_def)
  from o e have o2: "crud_get_task [task_A\<lparr>status := ''done''\<rparr>, task_B] 2
      = crud_get_task [task_A, task_B] 2"
    by simp
  from h1 h2 u t2 o2 show ?thesis by simp
qed

text \<open>
  Claim C8. Creating a task from a payload as a caller succeeds with a task under an id
  that no stored task had; fetching that id at once as the same caller succeeds and
  returns the same task, whose title, description and status are the payload's and
  whose owner is the caller.
\<close>

theorem create_get_round_trip:
  "\<exists>t db'. create_task crud_spec task db user_id = (Inr t, db')
     \<and> get_task crud_spec (id_task t) db' user_id = (Inr t, db')
     \<and> title t = new_title task
     \<and> description t = new_description task
     \<and> status t = new_status task
     \<and> owner_id t = user_id
     \<and> crud_get_task db (id_task t) = None"
proof -
  let ?t = "\<lparr>id_task = max_id db + 1, owner_id = user_id, title = new_title task,
             description = new_description task, status = new_status task\<rparr>"
  have fresh: "crud_get_task db (id_task ?t) = None"
    using crud_get_task_fresh [of db] by simp
  have c: "create_task crud_spec task db user_id = (Inr ?t, db @ [?t])"
    by (simp add: create_task_def crud_spec_simps crud_create_task_def except_Exception_def
        Let_def)
  have "crud_get_task (db @ [?t]) (id_task ?t) = Some ?t"
    using fresh by (rule crud_get_task_append)
  then have g: "get_task crud_spec (id_task ?t) (db @ [?t]) user_id = (Inr ?t, db @ [?t])"
    by (simp add: handlers_def crud_spec_simps)
  have f: "title ?t = new_title task \<and> description ?t = new_description task
      \<and> status ?t = new_status task \<and> owner_id ?t = user_id"
    by simp
  from c g f fresh show ?thesis by blast
qed

theorem create_get_round_trip_witness:
  "create_task crud_spec payload_A [] 1 = (Inr task_A, [task_A])
   \<and> get_task crud_spec 1 [task_A] 1 = (Inr task_A, [task_A])
   \<and> title task_A = new_title payload_A
   \<and> status task_A = new_status payload_A
   \<and> owner_id task_A = 1"
proof -
  have c: "create_task crud_spec payload_A [] 1 = (Inr task_A, [task_A])"
    by (simp add: create_task_def crud_spec_simps crud_create_task_def except_Exception_def
        Let_def example_defs)
  from create_get_round_trip [of payload_A "[]" 1]
  obtain t db' where r: "create_task crud_spec payload_A [] 1 = (Inr t, db')"
    and g: "get_task crud_spec (id_task t) db' 1 = (Inr t, db')"
    and f: "title t = new_title payload_A" "status t = new_status payload_A" "owner_id t = 1"
    by blast
  from r c have e: "t = task_A" "db' = [task_A]" by simp_all
  have i: "id_task task_A = 1" by (simp add: task_A_def)
  from c g f e i show ?thesis by simp
qed

section \<open>The health check: properties\<close>

text \<open>
  Claim C6. Whatever the probe of the database does, the health check returns a body
  and raises nothing, so the answer is 200; the "status" of the body is "healthy", and
  its "database" is "up" exactly when the probe raised nothing and "down" exactly when
  it raised.
\<close>

theorem health_check_reports:
  "\<exists>body. health_check probe = Inr body
     \<and> status_code (health_check probe) = 200
     \<and> map_of body ''status'' = Some ''healthy''
     \<and> (map_of body ''database'' = Some ''up'') = (probe = None)
     \<and> (map_of body ''database'' = Some ''down'') = (probe \<noteq> None)"
  by (cases probe) (simp_all add: health_check_def)

theorem health_check_reports_witness:
  "health_check (Some (ConnectionRefusedError ''connection refused'')) =
     Inr [(''status'', ''healthy''), (''database'', ''down''), (''service'', ''task-service'')]
   \<and> status_code (health_check (Some (ConnectionRefusedError ''connection refused''))) = 200
   \<and> health_check None =
     Inr [(''status'', ''healthy''), (''database'', ''up''), (''service'', ''task-service'')]"
proof -
  from health_check_reports [of "Some (ConnectionRefusedError ''connection refused'')"]
  have s: "status_code (health_check (Some (ConnectionRefusedError ''connection refused''))) = 200"
    by blast
  from health_check_reports [of None]
  obtain body where "health_check None = Inr body" by blast
  with s show ?thesis by (simp add: health_check_def)
qed

section \<open>Errors at the handler boundary\<close>




section \<open>The startup sequencer: properties\<close>

text \<open>
  Claim C5. The sequencer makes at most 10 attempts, and every sleep is of 3 seconds.
  When attempt \<open>k\<close> is the first that raises nothing, whatever the earlier ones raised,
  startup returns normally and its schedule is: each attempt before \<open>k\<close> followed by a
  sleep of 3 seconds, then attempt \<open>k\<close> and nothing after it. When each of the 10 attempts
  raises, whatever it raises, the schedule is the 10 attempts, each followed by a sleep
  of 3 seconds, and startup ends by raising
  \<^verbatim>\<open>RuntimeError("Database connection failed")\<close>.
\<close>

theorem startup_retry_policy:
  "length (attempts (snd (startup_event run))) \<le> 10
   \<and> set (sleeps (snd (startup_event run))) \<subseteq> {3}
   \<and> (1 \<le> k \<and> k \<le> 10 \<and> run k = None \<and> (\<forall>j. 1 \<le> j \<and> j < k \<longrightarrow> run j \<noteq> None) \<longrightarrow>
        fst (startup_event run) = Inr ()
      \<and> timing (snd (startup_event run)) =
          concat (map (\<lambda>j. [Attempt j, Sleep 3]) [1 ..< k]) @ [Attempt k])
   \<and> ((\<forall>j. 1 \<le> j \<and> j \<le> 10 \<longrightarrow> run j \<noteq> None) \<longrightarrow>
        fst (startup_event run) = Inl (RuntimeError ''Database connection failed'')
      \<and> timing (snd (startup_event run)) =
          concat (map (\<lambda>j. [Attempt j, Sleep 3]) [1 ..< 11]))"
proof -
  have a: "length (attempts (snd (startup_event run))) \<le> 10"
    using attempts_bound [of run 3 "[1 ..< 10 + 1]"] by (simp add: startup_event_loop del: upt_Suc)
  have b: "set (sleeps (snd (startup_event run))) \<subseteq> {3}"
    using sleeps_delay [of run 3 "[1 ..< 10 + 1]"] by (simp only: startup_event_loop)
  have c: "fst (startup_event run) = Inr ()
      \<and> timing (snd (startup_event run)) =
          concat (map (\<lambda>j. [Attempt j, Sleep 3]) [1 ..< k]) @ [Attempt k]"
    if h: "1 \<le> k \<and> k \<le> 10 \<and> run k = None \<and> (\<forall>j. 1 \<le> j \<and> j < k \<longrightarrow> run j \<noteq> None)"
  proof -
    from h have f: "\<forall>j \<in> set [1 ..< k]. run j \<noteq> None" by simp
    from h have s: "run k = None" by simp
    from h have k1: "1 \<le> k" and k2: "k \<le> 10" by blast+
    have r: "[1 ..< 10 + 1] = [1 ..< k] @ k # [Suc k ..< 11]"
      using k1 k2 by (rule range_split)
    show ?thesis
      using startup_loop_first_success [OF f s, of 3 "[Suc k ..< 11]"]
      by (simp only: startup_event_loop r)
  qed
  have d: "fst (startup_event run) = Inl (RuntimeError ''Database connection failed'')
      \<and> timing (snd (startup_event run)) =
          concat (map (\<lambda>j. [Attempt j, Sleep 3]) [1 ..< 11])"
    if h: "\<forall>j. 1 \<le> j \<and> j \<le> 10 \<longrightarrow> run j \<noteq> None"
  proof -
    from h have f: "\<forall>j \<in> set [1 ..< 10 + 1]. run j \<noteq> None" by simp
    show ?thesis
      using startup_loop_all_fail [OF f, of 3]
      by (simp add: startup_event_loop del: upt_Suc)
  qed
  from a b c d show ?thesis by blast
qed

theorem startup_retry_policy_witness:
  "startup_event db_up_at_third =
     (Inr (), [Attempt 1, Warning (ConnectionRefusedError ''refused''), Sleep 3,
               Attempt 2, Error (OtherError ''unexpected''), Sleep 3,
               Attempt 3, Created])
   \<and> timing (snd (startup_event db_up_at_third)) =
       concat (map (\<lambda>j. [Attempt j, Sleep 3]) [1 ..< 3]) @ [Attempt 3]
   \<and> fst (startup_event db_never_up) = Inl (RuntimeError ''Database connection failed'')
   \<and> timing (snd (startup_event db_never_up)) =
       concat (map (\<lambda>j. [Attempt j, Sleep 3]) [1 ..< 11])
   \<and> length (attempts (snd (startup_event db_never_up))) \<le> 10"
proof -
  have e: "startup_event db_up_at_third =
     (Inr (), [Attempt 1, Warning (ConnectionRefusedError ''refused''), Sleep 3,
               Attempt 2, Error (OtherError ''unexpected''), Sleep 3,
               Attempt 3, Created])"
    by (simp add: startup_event_def db_up_at_third_def upt_rec)
  have h1: "1 \<le> (3::nat) \<and> (3::nat) \<le> 10 \<and> db_up_at_third 3 = None
      \<and> (\<forall>j. 1 \<le> j \<and> j < 3 \<longrightarrow> db_up_at_third j \<noteq> None)"
    by (auto simp: db_up_at_third_def)
  have h2: "\<forall>j. 1 \<le> j \<and> j \<le> 10 \<longrightarrow> db_never_up j \<noteq> None"
    by (simp add: db_never_up_def)
  from e h1 h2 startup_retry_policy [of db_up_at_third 3] startup_retry_policy [of db_never_up 3]
  show ?thesis by blast
qed

end
